theory Spec2Isabelle
  imports Main "HOL-Library.Signed_Division"
begin

section \<open>Go strings, integers and panics\<close>

text \<open>
  A Go string is modelled by the sequence of runes that \<^verbatim>\<open>[]rune(s)\<close> yields for it;
  the strings are taken to be valid UTF-8, so that \<^verbatim>\<open>string([]rune(s))\<close> is \<open>s\<close> again.
  Two lengths are kept apart: \<^verbatim>\<open>len([]rune(s))\<close> counts runes, \<^verbatim>\<open>len(s)\<close> counts the
  bytes of the UTF-8 encoding.
\<close>

type_synonym rune = nat
type_synonym gostring = "rune list"

definition utf8_width :: "rune \<Rightarrow> nat" where
  "utf8_width r = (if r < 128 then 1 else if r < 2048 then 2 else if r < 65536 then 3 else 4)"

definition byte_len :: "gostring \<Rightarrow> int" where
  "byte_len s = int (sum_list (map utf8_width s))"

definition rune_len :: "gostring \<Rightarrow> int" where
  "rune_len s = int (length s)"

definition ascii :: "string \<Rightarrow> gostring" where
  "ascii cs = map of_char cs"

text \<open>The ellipsis glyph of \<^verbatim>\<open>truncate\<close> is U+22EF, three bytes in UTF-8.\<close>

definition ellipsis :: rune where
  "ellipsis = 8943"

text \<open>
  Go's \<^verbatim>\<open>int\<close> is taken at 64 bits: values lie between \<open>int_min\<close> and \<open>int_max\<close>
  and arithmetic wraps around silently.
\<close>

definition int_min :: int where
  "int_min = - (2 ^ 63)"

definition int_max :: int where
  "int_max = 2 ^ 63 - 1"

definition int_wrap :: "int \<Rightarrow> int" where
  "int_wrap x = (x + 2 ^ 63) mod 2 ^ 64 - 2 ^ 63"

datatype panic = SliceBoundsOutOfRange | PanicMsg string

definition and_then :: "panic + 'a \<Rightarrow> ('a \<Rightarrow> panic + 'b) \<Rightarrow> panic + 'b" where
  "and_then r f = (case r of Inl e \<Rightarrow> Inl e | Inr v \<Rightarrow> f v)"

text \<open>The slice expressions \<^verbatim>\<open>xs[i:]\<close> and \<^verbatim>\<open>xs[:j]\<close>, which panic out of range.\<close>

definition slice_from :: "'a list \<Rightarrow> int \<Rightarrow> panic + 'a list" where
  "slice_from xs i =
     (if 0 \<le> i \<and> i \<le> int (length xs) then Inr (drop (nat i) xs) else Inl SliceBoundsOutOfRange)"

definition slice_to :: "'a list \<Rightarrow> int \<Rightarrow> panic + 'a list" where
  "slice_to xs j =
     (if 0 \<le> j \<and> j \<le> int (length xs) then Inr (take (nat j) xs) else Inl SliceBoundsOutOfRange)"

section \<open>Outputs\<close>

text \<open>
  A \<^verbatim>\<open>bar.Output\<close> is \<^verbatim>\<open>nil\<close>, one segment, a group of outputs, or an output that is
  rebuilt on a timer (\<^verbatim>\<open>outputs.Repeat(...).Every(...)\<close>). A segment keeps its pieces of
  content and its left-click handler. Text that a format string or a formatting function
  renders from a time or a reading is kept as \<open>Formatted\<close> with the format alone; colour,
  urgency and font size are not part of the model.
\<close>

datatype handler = ClickToggle string | ClickRun string

datatype piece = Icon string | Text gostring | Formatted string | Spacer

datatype segment = Segment (pieces: "piece list") (onClick: "handler option")

datatype bar_output = NilOutput | Seg segment | Group "bar_output list" | RepeatEvery bar_output

section \<open>Inputs of the modules\<close>

text \<open>
  The \<^verbatim>\<open>Info\<close> structures come from the barista library. Each record keeps the fields
  and method results that the output functions of this program read. Status types are
  Go constants of an open type, so each has a constructor for any other value.
\<close>

datatype playback_status =
  media_Disconnected | media_Playing | media_Paused | media_Stopped | media_Other string

record media_info =
  PlaybackStatus :: playback_status
  Artist :: gostring
  Title :: gostring

datatype battery_status =
  battery_Disconnected | battery_Unknown | battery_Charging | battery_Other string

record battery_info =
  Status :: battery_status
  RemainingPct :: int

record wlan_info =
  wlan_Connecting :: bool
  wlan_Connected :: bool
  SSID :: gostring
  AccessPointMAC :: gostring

record volume_info =
  Mute :: bool
  Pct :: int

datatype weather_condition =
  Thunderstorm | TropicalStorm | Hurricane | Drizzle | Hail | Rain | Snow | Sleet
  | Mist | Smoke | Whirls | Haze | Fog | Clear | PartlyCloudy | Cloudy | Overcast
  | Tornado | Windy | weather_Other nat

text \<open>A \<^verbatim>\<open>time.Time\<close> is an integer instant; the zero time is instant 0.\<close>

record weather_info =
  Condition :: weather_condition
  Sunset :: int
  Sunrise :: int
  Description :: gostring

text \<open>
  \<open>Uptime\<close> is a \<^verbatim>\<open>time.Duration\<close>, a count of nanoseconds. \<open>UptimeHoursBelow24\<close> is the
  result of the floating-point comparison \<^verbatim>\<open>u.Hours() < 24\<close>.
\<close>

record sysinfo_info =
  Uptime :: int
  UptimeHoursBelow24 :: bool

record netinfo_state =
  net_Enabled :: bool
  net_Connecting :: bool
  Name :: gostring
  IPs :: "gostring list"

section \<open>The modal controller\<close>

datatype modal_state = Collapsed | Expanded string

record controller =
  current :: modal_state
  overrides :: "string \<Rightarrow> segment option"

section \<open>The environment of main\<close>

text \<open>
  What the operating system and the libraries answer during startup: the error of
  \<^verbatim>\<open>user.Current\<close>, whether the two colours of the bar configuration are set, the
  answers of the keyring, of the base-64 decoder and of the random source, the error of
  \<^verbatim>\<open>clock.ZoneByName\<close> for a zone name, the devices that \<^verbatim>\<open>deviceForMountPath\<close> finds
  for the root and the home directory, and the error with which \<^verbatim>\<open>barista.Run\<close> returns,
  if it ever does. Each call gets the same answer every time it is made.
\<close>

record env =
  userCurrentErr :: "string option"
  fgSet :: bool
  bgSet :: bool
  keyringGet :: "string + string"
  decodeErr :: "string \<Rightarrow> string option"
  randReadErr :: "string option"
  zoneByNameErr :: "string \<Rightarrow> string option"
  rootDev :: string
  homeDev :: string
  runErr :: "string option"

datatype event = Call string

text \<open>
  The state of main: the calls made so far, the modes registered on \<^verbatim>\<open>mainModal\<close> with
  their override segments, and the keys that were registered when \<^verbatim>\<open>Build\<close> was called.
\<close>

record world =
  trace :: "event list"
  modes :: "(string \<times> segment option) list"
  built :: "string list option"

section \<open>truncate\<close>

definition truncate :: "gostring \<Rightarrow> int \<Rightarrow> panic + gostring" where
  "truncate inp l0 =
     (let fromStart = (l0 < 0);
          l = (if l0 < 0 then int_wrap (- l0) else l0);
          inLen = rune_len inp
      in if inLen \<le> l then Inr inp
         else if fromStart then
           and_then (slice_from inp (int_wrap (int_wrap (inLen - l) + 1)))
             (\<lambda>t. Inr (ellipsis # t))
         else
           and_then (slice_to inp (int_wrap (l - 1)))
             (\<lambda>t. Inr (t @ [ellipsis])))"


section \<open>The media module's output function\<close>

definition makeMediaIconAndPosition :: "media_info \<Rightarrow> segment" where
  "makeMediaIconAndPosition m =
     Segment
       ([Icon ''mdi-music'']
        @ (if PlaybackStatus m = media_Playing then [Spacer, Formatted ''%s/''] else [])
        @ (if PlaybackStatus m = media_Paused \<or> PlaybackStatus m = media_Playing
           then [Spacer, Formatted ''%s''] else []))
       None"

text \<open>
  Lines 101 to 105 of \<^verbatim>\<open>mediaFormatFunc\<close>: the artist and the title as they are shown.
  \<^verbatim>\<open>len(artist)\<close> and \<^verbatim>\<open>len(title)\<close> are Go's \<^verbatim>\<open>len\<close> of a string, its byte length.
\<close>

definition mediaText :: "media_info \<Rightarrow> panic + gostring \<times> gostring" where
  "mediaText m =
     and_then (truncate (Artist m) 35) (\<lambda>artist.
     and_then (truncate (Title m) (70 - byte_len artist)) (\<lambda>title.
     and_then (if byte_len title < 35 then truncate (Artist m) (35 - byte_len title)
               else Inr artist) (\<lambda>artist.
     Inr (artist, title))))"

definition mediaFormatFunc :: "media_info \<Rightarrow> panic + bar_output" where
  "mediaFormatFunc m =
     (if PlaybackStatus m = media_Stopped \<or> PlaybackStatus m = media_Disconnected then Inr NilOutput
      else
        and_then (mediaText m) (\<lambda>(artist, title).
          let iconAndPosition =
                (if PlaybackStatus m = media_Playing
                 then RepeatEvery (Seg (makeMediaIconAndPosition m))
                 else Seg (makeMediaIconAndPosition m))
          in Inr (Group [iconAndPosition,
                         Seg (Segment [Text artist, Text (ascii '' - ''), Text title] None)])))"

section \<open>Operations of the modal controller\<close>

text \<open>
  Modelled from the spec: the implementation behind \<^verbatim>\<open>modal.Controller\<close> (package
  \<^verbatim>\<open>barista.run/group/modal\<close>) is missing. \<open>Build\<close> starts in \<open>Collapsed\<close> with the override
  segments given at registration.
\<close>

definition Build :: "(string \<times> segment option) list \<Rightarrow> controller" where
  "Build ms =
     \<lparr>current = Collapsed,
      overrides = (\<lambda>k. case map_of ms k of None \<Rightarrow> None | Some seg \<Rightarrow> seg)\<rparr>"

text \<open>
  Modelled from the spec: the implementation behind \<^verbatim>\<open>modal.Controller\<close> is missing.
  \<open>toggle(modeKey)\<close>: if currently \<open>Expanded(modeKey)\<close>, go to \<open>Collapsed\<close>; otherwise go to
  \<open>Expanded(modeKey)\<close>.
\<close>

definition Toggle :: "string \<Rightarrow> controller \<Rightarrow> controller" where
  "Toggle k c =
     (if current c = Expanded k then c\<lparr>current := Collapsed\<rparr> else c\<lparr>current := Expanded k\<rparr>)"

text \<open>
  Modelled from the spec: the implementation behind \<^verbatim>\<open>modal.Controller\<close> is missing.
  \<open>setOverride(modeKey, segment)\<close> updates that mode's override segment without changing
  the current state.
\<close>

definition SetOutput :: "string \<Rightarrow> segment option \<Rightarrow> controller \<Rightarrow> controller" where
  "SetOutput k seg c = c\<lparr>overrides := (overrides c)(k := seg)\<rparr>"

definition expanded :: "controller \<Rightarrow> string \<Rightarrow> bool" where
  "expanded c k = (current c = Expanded k)"

fun toggles :: "string list \<Rightarrow> controller \<Rightarrow> controller" where
  "toggles [] c = c"
| "toggles (k # ks) c = toggles ks (Toggle k c)"

text \<open>A click on a segment runs its handler; a launched command leaves the controller alone.\<close>

fun click :: "handler \<Rightarrow> controller \<Rightarrow> controller" where
  "click (ClickToggle k) c = Toggle k c"
| "click (ClickRun cmd) c = c"

section \<open>The output functions of the modules\<close>

definition makeIconOutput :: "string \<Rightarrow> segment" where
  "makeIconOutput key = Segment [Spacer, Icon key, Spacer] None"

text \<open>Decimal digits of an integer, for \<^verbatim>\<open>%d\<close>.\<close>

fun nat_dec :: "nat \<Rightarrow> string" where
  "nat_dec n = (if n < 10 then [char_of (48 + n)] else nat_dec (n div 10) @ [char_of (48 + n mod 10)])"

definition int_dec :: "int \<Rightarrow> string" where
  "int_dec i = (if i < 0 then CHR ''-'' # nat_dec (nat (- i)) else nat_dec (nat i))"

definition localdate_output :: bar_output where
  "localdate_output =
     Seg (Segment [Icon ''mdi-calendar-today'', Spacer, Formatted ''Mon Jan 2'']
            (Some (ClickRun ''gsimplecal'')))"

definition localtime_output :: bar_output where
  "localtime_output = Seg (Segment [Formatted ''15:04:05''] (Some (ClickToggle ''timezones'')))"

definition tzClock_output :: "string \<Rightarrow> bar_output" where
  "tzClock_output lbl = Seg (Segment [Text (ascii lbl), Spacer, Formatted ''15:04''] None)"

text \<open>The function given to \<^verbatim>\<open>battery.All().Output\<close>. Go's \<^verbatim>\<open>/\<close> truncates towards zero.\<close>

definition batt_iconName :: "battery_info \<Rightarrow> string" where
  "batt_iconName i =
     (let iconName = ''battery'';
          iconName = (if Status i = battery_Charging then iconName @ ''-charging'' else iconName);
          tenth = RemainingPct i sdiv 10
      in if tenth = 0 then iconName @ ''-outline''
         else if tenth < 10 then iconName @ ''-'' @ int_dec tenth @ ''0''
         else iconName)"

definition batt_output :: "battery_info \<Rightarrow> controller \<Rightarrow> bar_output \<times> controller" where
  "batt_output i c =
     (if Status i = battery_Disconnected \<or> Status i = battery_Unknown then (NilOutput, c)
      else
        let iconName = batt_iconName i;
            c = SetOutput ''battery'' (Some (makeIconOutput (''mdi-'' @ iconName))) c
        in (Group
              [Seg (Segment [Icon (''mdi-'' @ iconName), Spacer, Formatted ''%d:%02d'']
                      (Some (ClickToggle ''battery''))),
               Seg (Segment [Icon (''mdi-'' @ iconName), Formatted ''%d%%'', Spacer,
                             Formatted ''(%d:%02d)'']
                      (Some (ClickToggle ''battery''))),
               Seg (Segment [Formatted ''%4.1f/%4.1f'', Text (ascii ''Wh'')] None),
               Seg (Segment [Formatted ''% +6.2f'', Text (ascii ''W'')] None)],
            c))"

text \<open>The function given to \<^verbatim>\<open>wlan.Any().Output\<close>.\<close>

definition wifi_output :: "wlan_info \<Rightarrow> controller \<Rightarrow> bar_output \<times> controller" where
  "wifi_output i c =
     (if \<not> wlan_Connecting i \<and> \<not> wlan_Connected i
      then (NilOutput, SetOutput ''network'' (Some (makeIconOutput ''mdi-ethernet'')) c)
      else
        let c = SetOutput ''network'' (Some (makeIconOutput ''mdi-wifi'')) c
        in if wlan_Connecting i
           then (Seg (Segment [Icon ''mdi-wifi'', Text (ascii ''...'')] None), c)
           else
             (Group
                [Seg (Segment [Icon ''mdi-wifi'', Spacer, Text (SSID i)]
                        (Some (ClickToggle ''network''))),
                 Seg (Segment [Icon ''mdi-wifi'', Spacer, Text (SSID i)] None),
                 Seg (Segment [Formatted '' %2.1f Ghz''] None),
                 Seg (Segment [Icon ''mdi-access-point'', Spacer, Text (AccessPointMAC i)] None)],
              c))"

definition vol_output :: "volume_info \<Rightarrow> bar_output" where
  "vol_output v =
     (if Mute v then Seg (Segment [Icon ''mdi-volume-off''] None)
      else
        let pct = Pct v;
            iconName = (if pct > 66 then ''high'' else if pct > 33 then ''low'' else ''mute'')
        in Seg (Segment [Icon (''mdi-volume-'' @ iconName), Spacer, Formatted ''%2d%%''] None))"

text \<open>
  The function given to \<^verbatim>\<open>weather.New(...).Output\<close>; \<open>now\<close> is the instant that
  \<^verbatim>\<open>time.Now()\<close> returns.
\<close>

definition wthr_iconName :: "weather_info \<Rightarrow> int \<Rightarrow> string" where
  "wthr_iconName w now =
     (let iconName =
            (case Condition w of
               Thunderstorm \<Rightarrow> ''stormy'' | TropicalStorm \<Rightarrow> ''stormy'' | Hurricane \<Rightarrow> ''stormy''
             | Drizzle \<Rightarrow> ''shower'' | Hail \<Rightarrow> ''shower''
             | Rain \<Rightarrow> ''downpour''
             | Snow \<Rightarrow> ''snow'' | Sleet \<Rightarrow> ''snow''
             | Mist \<Rightarrow> ''windy-cloudy'' | Smoke \<Rightarrow> ''windy-cloudy'' | Whirls \<Rightarrow> ''windy-cloudy''
             | Haze \<Rightarrow> ''windy-cloudy'' | Fog \<Rightarrow> ''windy-cloudy''
             | Clear \<Rightarrow>
                 (if Sunset w \<noteq> 0 \<and> Sunset w < now then ''night''
                  else if Sunrise w \<noteq> 0 \<and> now < Sunrise w then ''night''
                  else ''sunny'')
             | PartlyCloudy \<Rightarrow> ''partly-sunny''
             | Cloudy \<Rightarrow> ''cloudy'' | Overcast \<Rightarrow> ''cloudy''
             | Tornado \<Rightarrow> ''windy'' | Windy \<Rightarrow> ''windy''
             | weather_Other _ \<Rightarrow> [])
      in if iconName = [] then ''warning-outline'' else ''weather-'' @ iconName)"

definition wthr_output :: "weather_info \<Rightarrow> int \<Rightarrow> controller \<Rightarrow> bar_output \<times> controller" where
  "wthr_output w now c =
     (let iconName = wthr_iconName w now;
          c = SetOutput ''weather'' (Some (makeIconOutput (''mdi-'' @ iconName))) c
      in (Group
            [Seg (Segment [Icon (''mdi-'' @ iconName), Spacer,
                           Formatted (''%.1f'' @ [CHR 0xE2, CHR 0x84, CHR 0x83])] None),
             Seg (Segment [Text (Description w)] None),
             Seg (Segment [Icon ''mdi-flag-variant-outline'', Spacer, Formatted ''%0.fmph %s''] None),
             Seg (Segment [Icon ''fa-tint'', Spacer, Formatted ''%0.f%%''] None),
             Seg (Segment [Icon ''mdi-weather-sunset-up'', Spacer, Formatted ''15:04'', Spacer,
                           Icon ''mdi-weather-sunset-down'', Spacer, Formatted ''15:04''] None),
             Seg (Segment [Formatted ''provided by %s''] None)],
          c))"

text \<open>\<^verbatim>\<open>pango.Textf(context)\<close> uses the command's output as the format string.\<close>

definition kubeContext_output :: "string \<Rightarrow> bar_output" where
  "kubeContext_output context =
     Seg (Segment [Icon ''mdi-ship-wheel'', Spacer, Formatted context]
            (Some (ClickToggle ''kubeContext'')))"

definition kubeNs_output :: bar_output where
  "kubeNs_output = Seg (Segment [Formatted ''Namespace: %s''] None)"

text \<open>\<^verbatim>\<open>10*time.Minute\<close> is 600000000000 nanoseconds.\<close>

definition loadAvg_output :: "sysinfo_info \<Rightarrow> bar_output" where
  "loadAvg_output s =
     (let out = [Icon ''mdi-desktop-tower'', Spacer, Formatted ''%0.2f'']
      in if Uptime s < 600000000000 then Seg (Segment out None)
         else Seg (Segment out (Some (ClickToggle ''sysinfo''))))"

definition loadAvgDetail_output :: bar_output where
  "loadAvgDetail_output = Seg (Segment [Formatted ''%0.2f %0.2f''] None)"

definition uptime_output :: "sysinfo_info \<Rightarrow> bar_output" where
  "uptime_output s =
     (let uptimeOut = (if UptimeHoursBelow24 s then Formatted ''%d:%02d''
                       else Formatted ''%dd%02dh'')
      in Seg (Segment [Icon ''mdi-weather-sunset-up'', Spacer, uptimeOut] None))"

definition freeMem_output :: bar_output where
  "freeMem_output =
     Seg (Segment [Icon ''mdi-memory'', Spacer, Formatted ''format.IBytesize'']
            (Some (ClickToggle ''sysinfo'')))"

definition swapMem_output :: bar_output where
  "swapMem_output =
     Seg (Segment [Icon ''mdi-swap-horizontal'', Spacer, Formatted ''format.IBytesize'',
                   Formatted ''(%2.0f%%)''] None)"

definition temp_output :: bar_output where
  "temp_output =
     Seg (Segment [Icon ''mdi-fan'', Spacer,
                   Formatted (''%2d'' @ [CHR 0xE2, CHR 0x84, CHR 0x83])] None)"

definition netsp_output :: bar_output where
  "netsp_output =
     Seg (Segment [Icon ''mdi-upload'', Formatted ''%7s'', Text (ascii '' ''),
                   Icon ''mdi-download'', Formatted ''%7s''] None)"

text \<open>The function given to \<^verbatim>\<open>netinfo.New().Output\<close>.\<close>

definition net_output :: "netinfo_state \<Rightarrow> bar_output" where
  "net_output i =
     (if \<not> net_Enabled i then NilOutput
      else if net_Connecting i \<or> length (IPs i) < 1 then Seg (Segment [Text (Name i)] None)
      else Group [Seg (Segment [Text (Name i)] None), Seg (Segment [Formatted ''%s''] None)])"

definition formatDiskSpace :: "string \<Rightarrow> bar_output" where
  "formatDiskSpace icon = Seg (Segment [Icon icon, Spacer, Formatted ''format.IBytesize''] None)"

definition mainDiskio_output :: bar_output where
  "mainDiskio_output =
     Seg (Segment [Icon ''mdi-swap-vertical'', Spacer, Formatted ''format.IByterate''] None)"

text \<open>Every module of the bar with the input of its output function.\<close>

datatype module_input =
  In_localdate | In_localtime | In_tzClock string
  | In_batt battery_info | In_wifi wlan_info | In_vol volume_info
  | In_wthr weather_info int | In_kubeContext string | In_kubeNs
  | In_loadAvg sysinfo_info | In_loadAvgDetail | In_uptime sysinfo_info
  | In_freeMem | In_swapMem | In_temp | In_netsp | In_net netinfo_state
  | In_homeDiskspace | In_rootDiskspace | In_mainDiskio | In_media media_info

fun module_output :: "module_input \<Rightarrow> controller \<Rightarrow> (panic + bar_output) \<times> controller" where
  "module_output In_localdate c = (Inr localdate_output, c)"
| "module_output In_localtime c = (Inr localtime_output, c)"
| "module_output (In_tzClock lbl) c = (Inr (tzClock_output lbl), c)"
| "module_output (In_batt i) c = (Inr (fst (batt_output i c)), snd (batt_output i c))"
| "module_output (In_wifi i) c = (Inr (fst (wifi_output i c)), snd (wifi_output i c))"
| "module_output (In_vol v) c = (Inr (vol_output v), c)"
| "module_output (In_wthr w now) c = (Inr (fst (wthr_output w now c)), snd (wthr_output w now c))"
| "module_output (In_kubeContext context) c = (Inr (kubeContext_output context), c)"
| "module_output In_kubeNs c = (Inr kubeNs_output, c)"
| "module_output (In_loadAvg s) c = (Inr (loadAvg_output s), c)"
| "module_output In_loadAvgDetail c = (Inr loadAvgDetail_output, c)"
| "module_output (In_uptime s) c = (Inr (uptime_output s), c)"
| "module_output In_freeMem c = (Inr freeMem_output, c)"
| "module_output In_swapMem c = (Inr swapMem_output, c)"
| "module_output In_temp c = (Inr temp_output, c)"
| "module_output In_netsp c = (Inr netsp_output, c)"
| "module_output (In_net i) c = (Inr (net_output i), c)"
| "module_output In_homeDiskspace c = (Inr (formatDiskSpace ''mdi-home-outline''), c)"
| "module_output In_rootDiskspace c = (Inr (formatDiskSpace ''mdi-harddisk''), c)"
| "module_output In_mainDiskio c = (Inr mainDiskio_output, c)"
| "module_output (In_media m) c = (mediaFormatFunc m, c)"

text \<open>The click handlers that an output carries.\<close>

fun handlers :: "bar_output \<Rightarrow> handler list" where
  "handlers NilOutput = []"
| "handlers (Seg s) = (case onClick s of None \<Rightarrow> [] | Some h \<Rightarrow> [h])"
| "handlers (Group outs) = concat (map handlers outs)"
| "handlers (RepeatEvery out) = handlers out"

definition toggled_keys :: "bar_output \<Rightarrow> string set" where
  "toggled_keys out = {k. ClickToggle k \<in> set (handlers out)}"

section \<open>main\<close>

text \<open>
  main is a sequence of steps over the \<open>world\<close>. A step either goes on with a new world or
  panics, and the panic keeps the world in which it happened.
\<close>

type_synonym step = "world \<Rightarrow> (panic \<times> world) + world"

definition emit :: "string \<Rightarrow> world \<Rightarrow> world" where
  "emit name w = w\<lparr>trace := trace w @ [Call name]\<rparr>"

definition call :: "string \<Rightarrow> step" where
  "call name w = Inr (emit name w)"

fun run_steps :: "step list \<Rightarrow> step" where
  "run_steps [] w = Inr w"
| "run_steps (s # ss) w = (case s w of Inl p \<Rightarrow> Inl p | Inr w' \<Rightarrow> run_steps ss w')"

definition home :: "env \<Rightarrow> step" where
  "home e w =
     (let w = emit ''user.Current'' w
      in case userCurrentErr e of
           Some err \<Rightarrow> Inl (PanicMsg err, w)
         | None \<Rightarrow> Inr (emit ''filepath.Join'' w))"

definition setupOauthEncryption :: "env \<Rightarrow> world \<Rightarrow> string option \<times> world" where
  "setupOauthEncryption e w =
     (let w = emit ''user.Current'' w;
          w = emit ''keyring.Get'' w;
          (err, w) = (case keyringGet e of
                        Inl err \<Rightarrow> (Some err, w)
                      | Inr secret \<Rightarrow> (decodeErr e secret, emit ''base64.DecodeString'' w))
      in if err \<noteq> None then
           (let w = emit ''rand.Read'' w
            in case randReadErr e of
                 Some err \<Rightarrow> (Some err, w)
               | None \<Rightarrow>
                   (None, emit ''oauth.SetEncryptionKey''
                            (emit ''keyring.Set'' (emit ''base64.EncodeToString'' w))))
         else (None, emit ''oauth.SetEncryptionKey'' w))"

definition setupOauth_step :: "env \<Rightarrow> step" where
  "setupOauth_step e w =
     (case setupOauthEncryption e w of
        (Some err, w) \<Rightarrow> Inl (PanicMsg (''Could not setup oauth token encryption: '' @ err), w)
      | (None, w) \<Rightarrow> Inr w)"

definition set_colors :: "env \<Rightarrow> step" where
  "set_colors e =
     (if fgSet e \<and> bgSet e
      then run_steps [call ''colors.Set'', call ''colors.Set'', call ''colors.Set'']
      else run_steps [])"

definition makeTzClock :: "env \<Rightarrow> string \<Rightarrow> string \<Rightarrow> step" where
  "makeTzClock e lbl tzName w =
     (let w = emit ''clock.ZoneByName'' w
      in case zoneByNameErr e tzName of
           Some err \<Rightarrow> Inl (PanicMsg err, w)
         | None \<Rightarrow> Inr w)"

text \<open>Lines 574 to 576: the subscription that finds the default interface.\<close>

definition netlink_iface :: step where
  "netlink_iface =
     run_steps [call ''netlink.Any'', call ''sub.Get'', call ''sub.Unsubscribe'']"

text \<open>\<^verbatim>\<open>mainModal.Mode(key).SetOutput(seg)\<close> registers a mode with its override segment.\<close>

definition mode :: "string \<Rightarrow> segment option \<Rightarrow> step" where
  "mode key seg w = Inr ((emit ''mainModal.Mode'' w)\<lparr>modes := modes w @ [(key, seg)]\<rparr>)"

text \<open>Lines 608 to 613: the home directory gets its own module on a device of its own.\<close>

definition homeDiskspace_step :: "env \<Rightarrow> step" where
  "homeDiskspace_step e =
     (if homeDev e \<noteq> rootDev e then run_steps [home e, call ''diskspace.New'']
      else run_steps [])"

definition sysMode_add_home :: "env \<Rightarrow> step" where
  "sysMode_add_home e =
     (if homeDev e \<noteq> rootDev e then call ''sysMode.Add'' else run_steps [])"

definition build :: step where
  "build w = Inr ((emit ''mainModal.Build'' w)\<lparr>built := Some (map fst (modes w))\<rparr>)"

text \<open>
  \<^verbatim>\<open>panic(barista.Run(...))\<close>: the render loop. It either returns an error, with which main
  panics, or never returns; \<open>Inr\<close> after this step is the bar running for good.
\<close>

definition runBar :: "env \<Rightarrow> step" where
  "runBar e w =
     (let w = emit ''barista.Run'' w
      in case runErr e of Some err \<Rightarrow> Inl (PanicMsg err, w) | None \<Rightarrow> Inr w)"

definition config_steps :: "env \<Rightarrow> step list" where
  "config_steps e =
     [home e, call ''mdi.Load'',
      call ''colors.LoadBarConfig'', call ''colors.Scheme'', call ''colors.Scheme'',
      set_colors e,
      setupOauth_step e]"

text \<open>Lines 260 to 572: the modules built before the default interface is looked up.\<close>

definition early_module_steps :: "step list" where
  "early_module_steps =
     [call ''clock.Local'', call ''clock.Local'',
      call ''battery.All'', call ''split.New'',
      call ''wlan.Any'', call ''split.New'',
      call ''alsa.DefaultMixer'', call ''volume.New'',
      call ''weather.New'',
      call ''shell.New'', call ''shell.New'',
      call ''sysinfo.New'', call ''sysinfo.New'', call ''sysinfo.New'',
      call ''meminfo.New'', call ''meminfo.New'',
      call ''cputemp.New'']"

text \<open>Lines 577 to 625: the modules built after it.\<close>

definition late_module_steps :: "env \<Rightarrow> step list" where
  "late_module_steps e =
     [call ''netspeed.New'',
      call ''netinfo.New'',
      call ''deviceForMountPath'',
      home e, call ''deviceForMountPath'',
      homeDiskspace_step e,
      call ''diskspace.New'',
      call ''diskio.New'',
      call ''media.Auto'', call ''split.New'']"

definition module_steps :: "env \<Rightarrow> step list" where
  "module_steps e = early_module_steps @ [netlink_iface] @ late_module_steps e"

definition modal_steps :: "env \<Rightarrow> step list" where
  "modal_steps e =
     [call ''modal.New'',
      mode ''kubeContext'' (Some (makeIconOutput ''mdi-ship-wheel'')),
      call ''Mode.Add'', call ''Mode.Detail'',
      mode ''network'' (Some (makeIconOutput ''mdi-ethernet'')),
      call ''Mode.Summary'', call ''Mode.Detail'',
      mode ''media'' (Some (makeIconOutput ''mdi-music'')),
      call ''Mode.Add'', call ''Mode.Detail'',
      mode ''sysinfo'' (Some (makeIconOutput ''mdi-chart-line-stacked'')),
      call ''Mode.Detail'', call ''Mode.Detail'', call ''Mode.Detail'', call ''Mode.Detail'',
      call ''Mode.Detail'', call ''Mode.Add'',
      sysMode_add_home e,
      mode ''battery'' None,
      call ''Mode.Summary'', call ''Mode.Detail'',
      mode ''weather'' (Some (makeIconOutput ''mdi-alert-box-outline'')),
      call ''Mode.Detail'',
      mode ''timezones'' (Some (makeIconOutput ''mdi-clock-outline'')),
      makeTzClock e ''Los Angeles'' ''America/Los_Angeles'', call ''Mode.Detail'',
      makeTzClock e ''New York'' ''America/New_York'', call ''Mode.Detail'',
      makeTzClock e ''UTC'' ''Etc/UTC'', call ''Mode.Detail'',
      makeTzClock e ''Copenhagen'' ''Europe/Copenhagen'', call ''Mode.Detail'',
      makeTzClock e ''Tokyo'' ''Asia/Tokyo'', call ''Mode.Detail'']"

definition startup_steps :: "env \<Rightarrow> step list" where
  "startup_steps e = config_steps e @ module_steps e @ modal_steps e @ [build]"

definition init_world :: world where
  "init_world = \<lparr>trace = [], modes = [], built = None\<rparr>"

definition main :: "env \<Rightarrow> (panic \<times> world) + world" where
  "main e = run_steps (startup_steps e @ [runBar e]) init_world"

definition world_of :: "(panic \<times> world) + world \<Rightarrow> world" where
  "world_of r = (case r of Inl (p, w) \<Rightarrow> w | Inr w \<Rightarrow> w)"

definition tzNames :: "string list" where
  "tzNames = [''America/Los_Angeles'', ''America/New_York'', ''Etc/UTC'', ''Europe/Copenhagen'',
              ''Asia/Tokyo'']"

section \<open>Notions for reasoning about the steps of main\<close>

text \<open>
  \<open>emits A s\<close>: whatever step \<open>s\<close> does, panic or not, it only appends calls from \<open>A\<close> to
  the trace. \<open>untouched s\<close>: it leaves the registered modes and the built keys as they
  were. \<open>keeps P s\<close>: the world after \<open>s\<close> satisfies \<open>P\<close> when the world before it does.
\<close>

definition emits :: "event set \<Rightarrow> step \<Rightarrow> bool" where
  "emits A s =
     (\<forall>w. take (length (trace w)) (trace (world_of (s w))) = trace w
          \<and> set (drop (length (trace w)) (trace (world_of (s w)))) \<subseteq> A)"

definition untouched :: "step \<Rightarrow> bool" where
  "untouched s = (\<forall>w. modes (world_of (s w)) = modes w \<and> built (world_of (s w)) = built w)"

definition keeps :: "(world \<Rightarrow> bool) \<Rightarrow> step \<Rightarrow> bool" where
  "keeps P s = (\<forall>w. P w \<longrightarrow> P (world_of (s w)))"

definition all_modes :: "string list" where
  "all_modes = [''kubeContext'', ''network'', ''media'', ''sysinfo'', ''battery'', ''weather'',
                ''timezones'']"

text \<open>An environment in which every call succeeds, and two in which the setup fails.\<close>

definition good_env :: env where
  "good_env =
     \<lparr>userCurrentErr = None, fgSet = True, bgSet = True, keyringGet = Inr ''c2VjcmV0'',
      decodeErr = (\<lambda>secret. None), randReadErr = None, zoneByNameErr = (\<lambda>tz. None),
      rootDev = ''/dev/sda1'', homeDev = ''/dev/sda2'', runErr = None\<rparr>"

definition no_keyring_no_entropy_env :: env where
  "no_keyring_no_entropy_env =
     good_env\<lparr>keyringGet := Inl ''no keyring'', randReadErr := Some ''no entropy''\<rparr>"

definition no_tokyo_env :: env where
  "no_tokyo_env =
     good_env\<lparr>zoneByNameErr :=
       (\<lambda>tz. if tz = ''Asia/Tokyo'' then Some ''unknown time zone Asia/Tokyo'' else None)\<rparr>"

section \<open>Properties of truncate\<close>

lemma int_wrap_id: "int_min \<le> x \<Longrightarrow> x \<le> int_max \<Longrightarrow> int_wrap x = x"
  by (simp add: int_wrap_def int_min_def int_max_def)

lemma truncate_pos:
  assumes "0 < l" and "l \<le> int_max"
  shows "truncate s l =
           (if rune_len s \<le> l then Inr s else Inr (take (nat (l - 1)) s @ [ellipsis]))"
  using assms
  by (auto simp: truncate_def Let_def and_then_def slice_to_def int_wrap_id int_min_def
      rune_len_def)

lemma truncate_neg:
  assumes "l < 0" and "int_min < l" and "rune_len s \<le> int_max"
  shows "truncate s l =
           (if rune_len s \<le> - l then Inr s
            else Inr (ellipsis # drop (nat (rune_len s + l + 1)) s))"
  using assms
  by (auto simp: truncate_def Let_def and_then_def slice_from_def int_wrap_id int_min_def
      int_max_def rune_len_def)

lemma truncate_zero: "s \<noteq> [] \<Longrightarrow> truncate s 0 = Inl SliceBoundsOutOfRange"
  by (simp add: truncate_def Let_def and_then_def slice_to_def int_wrap_def rune_len_def)

text \<open>
  C5. For a limit \<open>l\<close> other than 0 (an \<^verbatim>\<open>int\<close>) and a string \<open>s\<close>: with \<open>l > 0\<close> and at
  most \<open>l\<close> runes in \<open>s\<close>, \<open>truncate s l\<close> is \<open>s\<close>; with \<open>l > 0\<close> and more than \<open>l\<close> runes, it
  is the first \<open>l - 1\<close> runes of \<open>s\<close> and then the ellipsis, \<open>l\<close> runes in all; with \<open>l < 0\<close>
  and more than \<open>- l\<close> runes, it is the ellipsis and then the last \<open>- l - 1\<close> runes of \<open>s\<close>,
  \<open>- l\<close> runes in all.
\<close>

theorem truncate_spec:
  assumes "int_min \<le> l" and "l \<le> int_max" and "l \<noteq> 0" and "rune_len s \<le> int_max"
  shows "(0 < l \<and> rune_len s \<le> l \<longrightarrow> truncate s l = Inr s)
       \<and> (0 < l \<and> l < rune_len s \<longrightarrow>
            truncate s l = Inr (take (nat (l - 1)) s @ [ellipsis])
            \<and> rune_len (take (nat (l - 1)) s @ [ellipsis]) = l)
       \<and> (l < 0 \<and> - l < rune_len s \<longrightarrow>
            truncate s l = Inr (ellipsis # drop (length s - nat (- l - 1)) s)
            \<and> length (drop (length s - nat (- l - 1)) s) = nat (- l - 1)
            \<and> rune_len (ellipsis # drop (length s - nat (- l - 1)) s) = - l)"
proof (intro conjI impI)
  assume "0 < l \<and> rune_len s \<le> l"
  then show "truncate s l = Inr s"
    using assms truncate_pos by simp
next
  assume h: "0 < l \<and> l < rune_len s"
  then show "truncate s l = Inr (take (nat (l - 1)) s @ [ellipsis])"
    using assms truncate_pos by simp
  from h show "rune_len (take (nat (l - 1)) s @ [ellipsis]) = l"
    by (auto simp: rune_len_def min_def)
next
  assume h: "l < 0 \<and> - l < rune_len s"
  with assms have m: "int_min < l"
    by (simp add: int_min_def int_max_def)
  have e: "nat (rune_len s + l + 1) = length s - nat (- l - 1)"
    using h unfolding rune_len_def by arith
  show "truncate s l = Inr (ellipsis # drop (length s - nat (- l - 1)) s)"
    using truncate_neg [OF _ m assms(4)] h e by simp
  show "length (drop (length s - nat (- l - 1)) s) = nat (- l - 1)"
    using h unfolding rune_len_def by (simp, arith)
  show "rune_len (ellipsis # drop (length s - nat (- l - 1)) s) = - l"
    using h unfolding rune_len_def by (simp, arith)
qed

lemma small_in_range: "int_min \<le> 3 \<and> 3 \<le> int_max \<and> int_min \<le> - 3 \<and> - 3 \<le> int_max"
  by (simp add: int_min_def int_max_def)

lemma abcdef_len: "rune_len (ascii ''abc'') = 3 \<and> rune_len (ascii ''abcdef'') = 6"
  by (simp add: rune_len_def ascii_def)

theorem truncate_spec_witness:
  "truncate (ascii ''abc'') 3 = Inr (ascii ''abc'')
   \<and> truncate (ascii ''abcdef'') 3 = Inr (ascii ''ab'' @ [ellipsis])
   \<and> truncate (ascii ''abcdef'') (- 3) = Inr (ellipsis # ascii ''ef'')"
proof -
  have a: "rune_len (ascii ''abc'') \<le> int_max" "rune_len (ascii ''abcdef'') \<le> int_max"
    by (simp_all add: abcdef_len int_max_def)
  have "truncate (ascii ''abc'') 3 = Inr (ascii ''abc'')"
    using truncate_spec [of 3 "ascii ''abc''"] a small_in_range abcdef_len by simp
  moreover have "truncate (ascii ''abcdef'') 3 = Inr (ascii ''ab'' @ [ellipsis])"
    using truncate_spec [of 3 "ascii ''abcdef''"] a small_in_range abcdef_len
    by (simp add: ascii_def)
  moreover have "truncate (ascii ''abcdef'') (- 3) = Inr (ellipsis # ascii ''ef'')"
    using truncate_spec [of "- 3" "ascii ''abcdef''"] a small_in_range abcdef_len
    by (simp add: ascii_def)
  ultimately show ?thesis by simp
qed

text \<open>
  C10, as stated, fails at one nonzero limit: the most negative \<^verbatim>\<open>int\<close> is its own
  negation, so the index \<open>inLen - l + 1\<close> is negative and the slice panics.
\<close>

theorem truncate_min_int_panics:
  "int_min \<noteq> 0 \<and> truncate (ascii ''abc'') int_min = Inl SliceBoundsOutOfRange"
  by (simp add: truncate_def Let_def and_then_def slice_from_def int_wrap_def int_min_def
      rune_len_def ascii_def)

text \<open>
  C10, amended. \<open>truncate\<close> returns a string for every limit other than 0 and the most
  negative \<^verbatim>\<open>int\<close>. For every string that is not empty, \<open>truncate s 0\<close> panics with a slice
  bound out of range. \<open>mediaFormatFunc\<close> reaches the limit 0, and panics, whenever the
  artist as first truncated is 70 bytes long and the title is not empty.
\<close>

theorem truncate_total_except_zero_and_min:
  "(int_min < l \<and> l \<le> int_max \<and> l \<noteq> 0 \<and> rune_len s \<le> int_max \<longrightarrow>
      (\<exists>r. truncate s l = Inr r))
   \<and> (s \<noteq> [] \<longrightarrow> truncate s 0 = Inl SliceBoundsOutOfRange)
   \<and> (PlaybackStatus m \<noteq> media_Stopped \<and> PlaybackStatus m \<noteq> media_Disconnected
      \<and> truncate (Artist m) 35 = Inr a \<and> byte_len a = 70 \<and> Title m \<noteq> [] \<longrightarrow>
      mediaFormatFunc m = Inl SliceBoundsOutOfRange)"
proof (intro conjI impI)
  assume h: "int_min < l \<and> l \<le> int_max \<and> l \<noteq> 0 \<and> rune_len s \<le> int_max"
  show "\<exists>r. truncate s l = Inr r"
  proof (cases "0 < l")
    case True
    then show ?thesis using h truncate_pos [of l s] by simp
  next
    case False
    then have "l < 0" using h by simp
    then show ?thesis using h truncate_neg [of l s] by simp
  qed
next
  assume "s \<noteq> []"
  then show "truncate s 0 = Inl SliceBoundsOutOfRange"
    by (rule truncate_zero)
next
  assume h: "PlaybackStatus m \<noteq> media_Stopped \<and> PlaybackStatus m \<noteq> media_Disconnected
      \<and> truncate (Artist m) 35 = Inr a \<and> byte_len a = 70 \<and> Title m \<noteq> []"
  then have "mediaText m = Inl SliceBoundsOutOfRange"
    by (simp add: mediaText_def and_then_def truncate_zero)
  then show "mediaFormatFunc m = Inl SliceBoundsOutOfRange"
    using h by (simp add: mediaFormatFunc_def and_then_def)
qed

lemma replicate_35: "replicate 35 (x::nat) = [x,x,x,x,x, x,x,x,x,x, x,x,x,x,x, x,x,x,x,x,
    x,x,x,x,x, x,x,x,x,x, x,x,x,x,x]"
  by (simp add: eval_nat_numeral)

theorem truncate_total_except_zero_and_min_witness:
  "(\<exists>r. truncate (ascii ''abcdef'') (- 3) = Inr r)
   \<and> truncate (ascii ''abc'') 0 = Inl SliceBoundsOutOfRange
   \<and> mediaFormatFunc \<lparr>PlaybackStatus = media_Playing, Artist = replicate 35 233,
                       Title = ascii ''x''\<rparr> = Inl SliceBoundsOutOfRange"
proof -
  let ?m = "\<lparr>PlaybackStatus = media_Playing, Artist = replicate 35 233, Title = ascii ''x''\<rparr>"
  have r: "int_min < - 3 \<and> - 3 \<le> int_max \<and> rune_len (ascii ''abcdef'') \<le> int_max"
    by (simp add: int_min_def int_max_def rune_len_def ascii_def)
  have t: "truncate (Artist ?m) 35 = Inr (replicate 35 233)"
    by (simp add: truncate_pos int_max_def rune_len_def)
  have b: "byte_len (replicate 35 233) = 70"
    by (simp add: replicate_35 byte_len_def utf8_width_def)
  have "\<exists>r. truncate (ascii ''abcdef'') (- 3) = Inr r"
    using truncate_total_except_zero_and_min [of "- 3" "ascii ''abcdef''"] r by simp
  moreover have "truncate (ascii ''abc'') 0 = Inl SliceBoundsOutOfRange"
    using truncate_total_except_zero_and_min [of _ "ascii ''abc''"] by (simp add: ascii_def)
  moreover have "mediaFormatFunc ?m = Inl SliceBoundsOutOfRange"
    using truncate_total_except_zero_and_min [of _ _ ?m "replicate 35 233"] t b
    by (simp add: ascii_def)
  ultimately show ?thesis by simp
qed

section \<open>Properties of the media text budget\<close>

lemma rune_len_replicate: "rune_len (replicate n x) = int n"
  by (simp add: rune_len_def)

lemma byte_len_replicate: "byte_len (replicate n x) = int n * int (utf8_width x)"
  by (simp add: byte_len_def sum_list_replicate)

lemma byte_len_append: "byte_len (xs @ ys) = byte_len xs + byte_len ys"
  by (simp add: byte_len_def)

lemma byte_len_Cons: "byte_len (x # xs) = int (utf8_width x) + byte_len xs"
  by (simp add: byte_len_def)

lemma byte_len_Nil: "byte_len [] = 0"
  by (simp add: byte_len_def)

lemma utf8_width_values:
  "utf8_width 97 = 1" "utf8_width 233 = 2" "utf8_width ellipsis = 3" "utf8_width 128512 = 4"
  by (simp_all add: utf8_width_def ellipsis_def)

lemma ascii_Hi: "ascii ''Hi'' = [72, 105]"
  by (simp add: ascii_def)

text \<open>
  C3. With a 40-letter artist and the title \<open>Hi\<close>, the title leaves 33 of its 35 characters
  unused, and the artist is cut to 33 runes, \<open>35 - len(title)\<close>, instead of getting them.
\<close>

theorem mediaFormatFunc_short_title_shrinks_artist:
  "mediaFormatFunc \<lparr>PlaybackStatus = media_Paused, Artist = replicate 40 97,
                     Title = ascii ''Hi''\<rparr>
   = Inr (Group [Seg (Segment [Icon ''mdi-music'', Spacer, Formatted ''%s''] None),
                 Seg (Segment [Text (replicate 32 97 @ [ellipsis]), Text (ascii '' - ''),
                               Text (ascii ''Hi'')] None)])"
proof -
  let ?m = "\<lparr>PlaybackStatus = media_Paused, Artist = replicate 40 97, Title = ascii ''Hi''\<rparr>"
  have a: "truncate (replicate 40 97) 35 = Inr (replicate 34 97 @ [ellipsis])"
    by (simp add: truncate_pos int_max_def rune_len_replicate)
  have t: "truncate (ascii ''Hi'') 33 = Inr (ascii ''Hi'')"
    by (simp add: truncate_pos int_max_def rune_len_def ascii_Hi)
  have a': "truncate (replicate 40 97) 33 = Inr (replicate 32 97 @ [ellipsis])"
    by (simp add: truncate_pos int_max_def rune_len_replicate)
  have b: "byte_len (replicate 34 97 @ [ellipsis]) = 37" "byte_len (ascii ''Hi'') = 2"
    by (simp_all add: byte_len_append byte_len_replicate byte_len_Cons byte_len_Nil
        utf8_width_values ascii_Hi utf8_width_def ellipsis_def)
  have "mediaText ?m = Inr (replicate 32 97 @ [ellipsis], ascii ''Hi'')"
    by (simp add: mediaText_def and_then_def a t a' b)
  then show ?thesis
    by (simp add: mediaFormatFunc_def and_then_def makeMediaIconAndPosition_def)
qed

text \<open>
  C4. With the one-rune, two-byte artist U+00E9 and a title of 69 letters, 70 characters
  in all, the title is cut to 68 runes: its budget is 70 minus the artist's byte length.
\<close>

theorem mediaText_budget_counts_bytes:
  "rune_len [233] + rune_len (replicate 69 97) = 70
   \<and> mediaText \<lparr>PlaybackStatus = media_Playing, Artist = [233], Title = replicate 69 97\<rparr>
     = Inr ([233], replicate 67 97 @ [ellipsis])"
proof -
  have a: "truncate [233] 35 = Inr [233]"
    by (simp add: truncate_pos int_max_def rune_len_def)
  have t: "truncate (replicate 69 97) 68 = Inr (replicate 67 97 @ [ellipsis])"
    by (simp add: truncate_pos int_max_def rune_len_replicate)
  have b: "byte_len [233] = 2" "byte_len (replicate 67 97 @ [ellipsis]) = 70"
    by (simp_all add: byte_len_append byte_len_replicate byte_len_Cons byte_len_Nil
        utf8_width_values)
  show ?thesis
    by (simp add: mediaText_def and_then_def a t b rune_len_def)
qed

text \<open>
  With an artist of 35 four-byte runes the title's limit is \<open>70 - 140\<close>, and artist and
  title are shown with 105 runes.
\<close>

lemma mediaText_multibyte_artist_exceeds_budget:
  "mediaText \<lparr>PlaybackStatus = media_Playing, Artist = replicate 35 128512,
               Title = replicate 70 97\<rparr>
   = Inr (replicate 35 128512, replicate 70 97)"
proof -
  have a: "truncate (replicate 35 128512) 35 = Inr (replicate 35 128512)"
    by (simp add: truncate_pos int_max_def rune_len_replicate)
  have m: "int_min < - 70 \<and> rune_len (replicate 70 (97::nat)) \<le> int_max"
    by (simp add: int_min_def int_max_def rune_len_replicate)
  have t: "truncate (replicate 70 97) (- 70) = Inr (replicate 70 97)"
    using truncate_neg [of "- 70" "replicate 70 97"] m by (simp add: rune_len_replicate)
  have b: "byte_len (replicate 35 128512) = 140" "byte_len (replicate 70 97) = 70"
    by (simp_all add: byte_len_replicate utf8_width_values)
  show ?thesis
    by (simp add: mediaText_def and_then_def a t b)
qed

section \<open>Modules with nothing to show\<close>

text \<open>
  C6. \<open>mediaFormatFunc\<close> returns the nil output, not a panic, when the player is stopped or
  disconnected; the battery's output function returns nil when the battery is
  disconnected or unknown; the netinfo output function returns nil when the state is
  not enabled.
\<close>

theorem nothing_to_show_is_nil:
  "(PlaybackStatus m = media_Stopped \<or> PlaybackStatus m = media_Disconnected \<longrightarrow>
      mediaFormatFunc m = Inr NilOutput)
   \<and> (Status i = battery_Disconnected \<or> Status i = battery_Unknown \<longrightarrow>
      fst (batt_output i c) = NilOutput)
   \<and> (\<not> net_Enabled n \<longrightarrow> net_output n = NilOutput)"
  by (simp add: mediaFormatFunc_def batt_output_def net_output_def)

theorem nothing_to_show_is_nil_witness:
  "mediaFormatFunc \<lparr>PlaybackStatus = media_Stopped, Artist = ascii ''abc'', Title = ascii ''x''\<rparr>
     = Inr NilOutput
   \<and> fst (batt_output \<lparr>Status = battery_Unknown, RemainingPct = 50\<rparr> (Build [])) = NilOutput
   \<and> net_output \<lparr>net_Enabled = False, net_Connecting = False, Name = ascii ''eth0'', IPs = []\<rparr>
     = NilOutput"
  using nothing_to_show_is_nil
    [of "\<lparr>PlaybackStatus = media_Stopped, Artist = ascii ''abc'', Title = ascii ''x''\<rparr>"
        "\<lparr>Status = battery_Unknown, RemainingPct = 50\<rparr>" "Build []"
        "\<lparr>net_Enabled = False, net_Connecting = False, Name = ascii ''eth0'', IPs = []\<rparr>"]
  by simp

section \<open>Properties of the modal controller\<close>

lemma current_Toggle:
  "current (Toggle k c) = (if current c = Expanded k then Collapsed else Expanded k)"
  by (simp add: Toggle_def)

text \<open>
  C1. The controller that \<open>Build\<close> returns starts in \<open>Collapsed\<close>. After any sequence of
  toggles at most one mode is expanded. \<open>Toggle k\<close> from \<open>Expanded k\<close> gives \<open>Collapsed\<close>, and
  from any other state gives \<open>Expanded k\<close>. From the initial state, toggling a mode twice
  ends in \<open>Collapsed\<close>, and toggling \<open>a\<close> and then another mode \<open>b\<close> ends in \<open>Expanded b\<close>
  with \<open>a\<close> not expanded.
\<close>

theorem toggle_state_machine:
  "current (Build ms) = Collapsed
   \<and> (expanded (toggles ks (Build ms)) a \<and> expanded (toggles ks (Build ms)) b \<longrightarrow> a = b)
   \<and> (current c = Expanded k \<longrightarrow> current (Toggle k c) = Collapsed)
   \<and> (current c \<noteq> Expanded k \<longrightarrow> current (Toggle k c) = Expanded k)
   \<and> current (toggles [a, a] (Build ms)) = Collapsed
   \<and> (a \<noteq> b \<longrightarrow> current (toggles [a, b] (Build ms)) = Expanded b
               \<and> \<not> expanded (toggles [a, b] (Build ms)) a)"
proof (intro conjI impI)
  assume "expanded (toggles ks (Build ms)) a \<and> expanded (toggles ks (Build ms)) b"
  then have "Expanded a = Expanded b" unfolding expanded_def by (elim conjE) (rule trans [OF sym])
  then show "a = b" by simp
qed (simp_all add: expanded_def current_Toggle Build_def)

theorem toggle_state_machine_witness:
  "current (Build [(''battery'', None)]) = Collapsed
   \<and> expanded (toggles [''battery'', ''network'', ''network'', ''sysinfo''] (Build [])) ''sysinfo''
   \<and> current (Toggle ''battery'' (Toggle ''battery'' (Build []))) = Collapsed
   \<and> current (toggles [''battery'', ''battery''] (Build [])) = Collapsed
   \<and> current (toggles [''battery'', ''network''] (Build [])) = Expanded ''network''
   \<and> \<not> expanded (toggles [''battery'', ''network''] (Build [])) ''battery''"
  using toggle_state_machine [of "[]" "[]" "''battery''" "''network''"
      "Toggle ''battery'' (Build [])" "''battery''"]
    toggle_state_machine [of "[(''battery'', None)]" "[]" a a c k]
  by (simp add: expanded_def current_Toggle Build_def)

lemma current_SetOutput: "current (SetOutput k seg c) = current c"
  by (simp add: SetOutput_def)

lemma current_module_output: "current (snd (module_output inp c)) = current c"
  by (cases inp)
    (simp_all add: batt_output_def wifi_output_def wthr_output_def Let_def current_SetOutput)

text \<open>
  C2. \<open>SetOutput k seg\<close> sets the override segment of mode \<open>k\<close>, leaves the override of
  every other mode as it was and leaves the current state as it was. The output
  functions of the battery, wlan and weather modules, which call it, and the output
  function of every other module, leave the current state as it was.
\<close>

theorem SetOutput_keeps_state:
  "current (SetOutput k seg c) = current c
   \<and> overrides (SetOutput k seg c) k = seg
   \<and> (\<forall>k'. k' \<noteq> k \<longrightarrow> overrides (SetOutput k seg c) k' = overrides c k')
   \<and> current (snd (batt_output i c)) = current c
   \<and> current (snd (wifi_output j c)) = current c
   \<and> current (snd (wthr_output w now c)) = current c
   \<and> current (snd (module_output inp c)) = current c"
  using current_module_output [of "In_batt i" c] current_module_output [of "In_wifi j" c]
    current_module_output [of "In_wthr w now" c] current_module_output [of inp c]
  by (simp add: SetOutput_def)

theorem SetOutput_keeps_state_witness:
  "current (SetOutput ''battery'' (Some (makeIconOutput ''mdi-battery-50''))
              (Toggle ''network'' (Build []))) = Expanded ''network''
   \<and> overrides (SetOutput ''battery'' (Some (makeIconOutput ''mdi-battery-50''))
              (Toggle ''network'' (Build []))) ''network'' = None
   \<and> current (snd (batt_output \<lparr>Status = battery_Charging, RemainingPct = 50\<rparr>
              (Toggle ''network'' (Build [])))) = Expanded ''network''"
  using SetOutput_keeps_state [of "''battery''" "Some (makeIconOutput ''mdi-battery-50'')"
      "Toggle ''network'' (Build [])" "\<lparr>Status = battery_Charging, RemainingPct = 50\<rparr>"]
  by (simp add: Toggle_def Build_def)

end
